theory Spec2Isabelle
  imports Main
begin

section \<open>The Mir client window of qtubuntu (src/ubuntumirclient/window.cpp)\<close>

text \<open>
  A shallow embedding of \<^verbatim>\<open>UbuntuWindow\<close> and its helpers. Every operation of the class
  becomes a function from the window's fields (and what the toolkit, the screen and the
  compositor answer) to the fields afterwards together with the list of calls the
  operation made on its collaborators, in program order.

  Conventions of the model:
  \<^item> A C++ \<^verbatim>\<open>int\<close> has 32 bits. Its values are modelled by \<^typ>\<open>int\<close>; where the
    source computes with values that it does not bound, in \<^verbatim>\<open>panelHeight\<close> and in the
    window-id counter, every operation is followed by the wrap-around into the 32-bit
    range. Coordinates and sizes are the exact values.
  \<^item> The build modelled is the one with \<^verbatim>\<open>QT_NO_DEBUG\<close> defined: the \<^verbatim>\<open>frameNumber\<close>
    field and the code between \<^verbatim>\<open>#if !defined(QT_NO_DEBUG)\<close> and \<^verbatim>\<open>#endif\<close> are absent.
    The tracing macros \<^verbatim>\<open>LOG\<close> and \<^verbatim>\<open>DLOG\<close> of logging.h (not among the sources) are not
    part of the model; \<^verbatim>\<open>printf\<close> and \<^verbatim>\<open>qWarning\<close> are.
  \<^item> Qt's value classes \<^verbatim>\<open>QRect\<close> and \<^verbatim>\<open>QSize\<close> and Mir's enumerations belong to
    libraries; they are modelled after their public definitions.
\<close>

subsection \<open>Qt value types\<close>

text \<open>\<^verbatim>\<open>QSize\<close>: a width and a height.\<close>

record QSize =
  wd :: int
  ht :: int

text \<open>
  \<^verbatim>\<open>QRect\<close> stores the coordinates of its top-left and bottom-right pixels
  (\<^verbatim>\<open>x1, y1, x2, y2\<close> in qrect.h); width and height are derived.
\<close>

record QRect =
  rx1 :: int
  ry1 :: int
  rx2 :: int
  ry2 :: int

definition QRect_default :: QRect where
  \<comment> \<open>\<^verbatim>\<open>QRect()\<close>: the null rectangle\<close>
  "QRect_default = \<lparr>rx1 = 0, ry1 = 0, rx2 = - 1, ry2 = - 1\<rparr>"

definition QRect_xywh :: "int \<Rightarrow> int \<Rightarrow> int \<Rightarrow> int \<Rightarrow> QRect" where
  \<comment> \<open>\<^verbatim>\<open>QRect(x, y, width, height)\<close>\<close>
  "QRect_xywh x y w h = \<lparr>rx1 = x, ry1 = y, rx2 = x + w - 1, ry2 = y + h - 1\<rparr>"

definition QRect_at_origin :: "QSize \<Rightarrow> QRect" where
  \<comment> \<open>\<^verbatim>\<open>QRect(QPoint(), size)\<close>\<close>
  "QRect_at_origin s = \<lparr>rx1 = 0, ry1 = 0, rx2 = 0 + wd s - 1, ry2 = 0 + ht s - 1\<rparr>"

definition QRect_x :: "QRect \<Rightarrow> int" where
  "QRect_x r = rx1 r"

definition QRect_y :: "QRect \<Rightarrow> int" where
  "QRect_y r = ry1 r"

definition QRect_width :: "QRect \<Rightarrow> int" where
  "QRect_width r = rx2 r - rx1 r + 1"

definition QRect_height :: "QRect \<Rightarrow> int" where
  "QRect_height r = ry2 r - ry1 r + 1"

definition QRect_size :: "QRect \<Rightarrow> QSize" where
  "QRect_size r = \<lparr>wd = QRect_width r, ht = QRect_height r\<rparr>"

definition QRect_isEmpty :: "QRect \<Rightarrow> bool" where
  "QRect_isEmpty r = (rx1 r > rx2 r \<or> ry1 r > ry2 r)"

definition QRect_setY :: "QRect \<Rightarrow> int \<Rightarrow> QRect" where
  \<comment> \<open>\<^verbatim>\<open>setY\<close> moves the top edge and leaves the bottom edge where it is\<close>
  "QRect_setY r v = r\<lparr>ry1 := v\<rparr>"

definition QRect_setWidth :: "QRect \<Rightarrow> int \<Rightarrow> QRect" where
  "QRect_setWidth r w = r\<lparr>rx2 := rx1 r + w - 1\<rparr>"

definition QRect_setHeight :: "QRect \<Rightarrow> int \<Rightarrow> QRect" where
  "QRect_setHeight r h = r\<lparr>ry2 := ry1 r + h - 1\<rparr>"

subsection \<open>Machine integers\<close>

text \<open>
  The value that a C++ \<^verbatim>\<open>int\<close> holds after an arithmetic operation whose exact result
  is the argument: the representative of the result modulo \<open>2^32\<close> between
  \<open>-2147483648\<close> and \<open>2147483647\<close>.
\<close>

definition int32 :: "int \<Rightarrow> int" where
  "int32 x = (x + 2147483648) mod 4294967296 - 2147483648"

text \<open>
  The conversion of an \<^verbatim>\<open>int\<close> to \<^verbatim>\<open>WId\<close>, Qt's \<^verbatim>\<open>quintptr\<close>: an unsigned integer of the
  width of a pointer, taken to be 64 bits. The conversion leaves the values from 0 to
  2147483647 as they are.
\<close>

definition to_WId :: "int \<Rightarrow> int" where
  "to_WId x = x mod 18446744073709551616"

subsection \<open>Enumerations\<close>

text \<open>\<^verbatim>\<open>Qt::WindowState\<close> (qnamespace.h).\<close>

datatype WindowState =
  WindowNoState | WindowMinimized | WindowMaximized | WindowFullScreen | WindowActive

text \<open>\<^verbatim>\<open>MirSurfaceState\<close> and \<^verbatim>\<open>MirPixelFormat\<close> (mir_toolkit/common.h).\<close>

datatype MirSurfaceState =
  mir_surface_state_unknown | mir_surface_state_restored | mir_surface_state_minimized
  | mir_surface_state_maximized | mir_surface_state_vertmaximized
  | mir_surface_state_fullscreen | mir_surface_state_horizmaximized
  | mir_surface_state_hidden

datatype MirPixelFormat =
  mir_pixel_format_invalid | mir_pixel_format_abgr_8888 | mir_pixel_format_xbgr_8888
  | mir_pixel_format_argb_8888 | mir_pixel_format_xrgb_8888 | mir_pixel_format_bgr_888
  | mir_pixel_format_rgb_888 | mir_pixel_format_rgb_565 | mir_pixel_format_rgba_5551
  | mir_pixel_format_rgba_4444

fun qtWindowStateToMirSurfaceState :: "WindowState \<Rightarrow> MirSurfaceState" where
  "qtWindowStateToMirSurfaceState WindowNoState = mir_surface_state_restored"
| "qtWindowStateToMirSurfaceState WindowFullScreen = mir_surface_state_fullscreen"
| "qtWindowStateToMirSurfaceState WindowMaximized = mir_surface_state_maximized"
| "qtWindowStateToMirSurfaceState WindowMinimized = mir_surface_state_minimized"
| "qtWindowStateToMirSurfaceState _ = mir_surface_state_restored"

subsection \<open>Calls on the collaborators\<close>

text \<open>
  What an operation does besides changing the window's fields: taking and releasing the
  window's mutex, writing to the standard output and the warning channel, requests to the
  compositor (the \<^verbatim>\<open>Sync\<close> ones are wrapped in \<^verbatim>\<open>mir_wait_for\<close>), and notifications to
  the toolkit through \<^verbatim>\<open>QWindowSystemInterface\<close>.
\<close>

datatype effect =
    MutexLock
  | MutexUnlock
  | Printf string
  | QWarning string
  | CreateSpecForInputMethod int int MirPixelFormat
  | CreateSpecForNormalSurface int int MirPixelFormat
  | SpecSetName string
  | SurfaceCreateSync
  | SurfaceSetEventHandler
  | SpecRelease
  | EglCreateWindowSurface
  | SurfaceSetStateSync MirSurfaceState
  | HandleGeometryChange QRect QRect
  | HandleExposeEvent QRect
  | FlushWindowSystemEvents

subsection \<open>The pixel format negotiator\<close>

definition formats :: "MirPixelFormat list" where
  "formats = [mir_pixel_format_argb_8888, mir_pixel_format_abgr_8888,
              mir_pixel_format_xrgb_8888, mir_pixel_format_xbgr_8888,
              mir_pixel_format_bgr_888]"

text \<open>The inner loop over \<^verbatim>\<open>j\<close>: is the candidate among the available formats?\<close>

fun format_available :: "MirPixelFormat \<Rightarrow> MirPixelFormat list \<Rightarrow> bool" where
  "format_available f [] = False"
| "format_available f (a # availableFormats) =
     (if f = a then True else format_available f availableFormats)"

text \<open>
  The outer loop over \<^verbatim>\<open>i\<close>, on the candidates from the starting index on; when it
  runs out, the warning and the sentinel.
\<close>

definition no_format_warning :: string where
  "no_format_warning = ''[ubuntumirclient QPA] can't find a valid pixel format''"

fun first_available :: "MirPixelFormat list \<Rightarrow> MirPixelFormat list \<Rightarrow> MirPixelFormat \<times> effect list" where
  "first_available [] availableFormats = (mir_pixel_format_invalid, [QWarning no_format_warning])"
| "first_available (f # fs) availableFormats =
     (if format_available f availableFormats then (f, [])
      else first_available fs availableFormats)"

text \<open>
  \<^verbatim>\<open>getPixelFormat(connection, hasAlpha)\<close>; of the connection only the answer of
  \<^verbatim>\<open>mir_connection_get_available_surface_formats\<close> matters, which is the first argument.
\<close>

definition getPixelFormat :: "MirPixelFormat list \<Rightarrow> bool \<Rightarrow> MirPixelFormat \<times> effect list" where
  "getPixelFormat availableFormats hasAlpha =
     first_available (drop (if hasAlpha then 0 else 2) formats) availableFormats"

definition alpha_capable :: "MirPixelFormat \<Rightarrow> bool" where
  "alpha_capable f = (f = mir_pixel_format_argb_8888 \<or> f = mir_pixel_format_abgr_8888)"

subsection \<open>The panel height\<close>

text \<open>
  \<^verbatim>\<open>QByteArray::toInt(&ok)\<close> in base 10, after qbytearray.cpp and qlocale.cpp of Qt 5:
  leading white space is skipped, one sign is accepted, at least one digit must follow and
  nothing may follow the digits, and the value must fit a 32-bit \<^verbatim>\<open>int\<close>.
  \<^term>\<open>None\<close> stands for \<^verbatim>\<open>ok == false\<close>.
\<close>

definition char_code :: "char \<Rightarrow> int" where
  "char_code c = of_char c"

definition is_space :: "char \<Rightarrow> bool" where
  "is_space c = (char_code c = 32 \<or> (9 \<le> char_code c \<and> char_code c \<le> 13))"

definition is_digit :: "char \<Rightarrow> bool" where
  "is_digit c = (48 \<le> char_code c \<and> char_code c \<le> 57)"

fun digits_value :: "int \<Rightarrow> string \<Rightarrow> int" where
  "digits_value acc [] = acc"
| "digits_value acc (c # cs) = digits_value (acc * 10 + (char_code c - 48)) cs"

definition parse_digits :: "string \<Rightarrow> int option" where
  "parse_digits s = (if s \<noteq> [] \<and> list_all is_digit s then Some (digits_value 0 s) else None)"

definition parse_signed :: "string \<Rightarrow> int option" where
  "parse_signed s =
     (case s of
        [] \<Rightarrow> None
      | c # cs \<Rightarrow>
          if c = CHR ''-'' then map_option uminus (parse_digits cs)
          else if c = CHR ''+'' then parse_digits cs
          else parse_digits s)"

definition QByteArray_toInt :: "string \<Rightarrow> int option" where
  "QByteArray_toInt s =
     (case parse_signed (dropWhile is_space s) of
        None \<Rightarrow> None
      | Some v \<Rightarrow> if v < - 2147483648 \<or> v > 2147483647 then None else Some v)"

text \<open>
  \<^verbatim>\<open>UbuntuWindowPrivate::panelHeight()\<close>. The argument is what
  \<^verbatim>\<open>qgetenv("GRID_UNIT_PX")\<close> returns, the empty byte array when the variable is not set.
  \<^verbatim>\<open>qFloor\<close> of the quotient of an \<^verbatim>\<open>int\<close> by 8 in floating point is the integer
  quotient rounded towards minus infinity, which is \<^term>\<open>(div)\<close> on \<^typ>\<open>int\<close>. The two
  products and the sum are computed in \<^verbatim>\<open>int\<close>.
\<close>

definition defaultGridUnit :: int where
  "defaultGridUnit = 8"

definition gridUnit_of :: "string \<Rightarrow> int" where
  "gridUnit_of gridUnitString =
     (if gridUnitString \<noteq> [] then
        (case QByteArray_toInt gridUnitString of
           Some v \<Rightarrow> v
         | None \<Rightarrow> defaultGridUnit)
      else defaultGridUnit)"

definition panelHeight :: "string \<Rightarrow> int" where
  "panelHeight gridUnitString =
     (let gridUnit = gridUnit_of gridUnitString
      in int32 (int32 (gridUnit * 3) + int32 ((gridUnit div defaultGridUnit) * 2)))"

subsection \<open>The window and its surroundings\<close>

text \<open>
  Of \<^verbatim>\<open>QSurfaceFormat\<close> the window reads the alpha buffer size only; of
  \<^verbatim>\<open>MirSurfaceParameters\<close>, the width and the height.
\<close>

record QSurfaceFormat =
  alphaBufferSize :: int

record MirSurfaceParameters =
  p_width :: int
  p_height :: int

text \<open>
  The fields of \<^verbatim>\<open>UbuntuWindowPrivate\<close>, and \<^verbatim>\<open>rect\<close>, the geometry that the base class
  \<^verbatim>\<open>QPlatformWindow\<close> stores (\<^verbatim>\<open>geometry()\<close> reads it, \<^verbatim>\<open>QPlatformWindow::setGeometry\<close>
  writes it). The two handles are modelled by whether they are set: \<^verbatim>\<open>d_surface\<close> is
  \<^verbatim>\<open>surface != nullptr\<close> and \<^verbatim>\<open>d_eglSurface\<close> is \<^verbatim>\<open>eglSurface != EGL_NO_SURFACE\<close>. The
  pointers to the screen, the input dispatcher, the connection and the clipboard are
  never changed after construction and are left out, as is the mutex, whose use shows in
  the calls an operation makes.
\<close>

record UbuntuWindow =
  rect :: QRect
  d_eglSurface :: bool
  d_format :: QSurfaceFormat
  d_id :: int
  d_state :: WindowState
  d_surface :: bool
  d_bufferSize :: QSize
  d_exposed :: bool
  d_resizeCatchUpAttempts :: int

text \<open>
  What a window under construction reads from outside: from its \<^verbatim>\<open>QWindow\<close> (requested
  format, window state, geometry, the \<^verbatim>\<open>role\<close> property converted by \<^verbatim>\<open>toUInt\<close>, or
  \<^term>\<open>None\<close> for an invalid variant, and the title, or \<^term>\<open>None\<close> for a null string),
  from the screen, from the process environment, from the connection, from EGL, and from
  the compositor: the parameters of the surface it created, or \<^term>\<open>None\<close> when
  \<^verbatim>\<open>d->surface\<close> is still null after the wait.
\<close>

record Environment =
  requestedFormat :: QSurfaceFormat
  windowState :: WindowState
  windowGeometry :: QRect
  roleProperty :: "nat option"
  windowTitle :: "string option"
  screenGeometry :: QRect
  screenAvailableGeometry :: QRect
  GRID_UNIT_PX :: string
  availableSurfaceFormats :: "MirPixelFormat list"
  glFormatFromConfig :: QSurfaceFormat
  createdSurface :: "MirSurfaceParameters option"
  eglSurfaceCreated :: bool

datatype failure = SurfaceNull

definition geometry :: "UbuntuWindow \<Rightarrow> QRect" where
  "geometry w = rect w"

definition winId :: "UbuntuWindow \<Rightarrow> int" where
  "winId w = d_id w"

subsection \<open>Creating the surface\<close>

text \<open>
  The surface geometry that \<^verbatim>\<open>createWindow\<close> computes first (the three-way branch on
  \<^verbatim>\<open>d->state\<close>), from the state, the screen's geometry and available geometry, the
  window's own geometry and the panel height.
\<close>

definition createWindow_geometry ::
    "WindowState \<Rightarrow> QRect \<Rightarrow> QRect \<Rightarrow> QRect \<Rightarrow> int \<Rightarrow> QRect \<times> effect list" where
  "createWindow_geometry st screen_geometry screen_availableGeometry this_geometry ph =
     (if st = WindowFullScreen then
        (screen_geometry, [Printf (''UbuntuWindow - fullscreen geometry'' @ [CHR 0x0A])])
      else if st = WindowMaximized then
        (QRect_setY screen_availableGeometry ph,
         [Printf (''UbuntuWindow - maximized geometry'' @ [CHR 0x0A])])
      else
        (QRect_setY this_geometry ph,
         [Printf (''UbuntuWindow - regular geometry'' @ [CHR 0x0A])]))"

definition SCREEN_KEYBOARD_ROLE :: int where
  "SCREEN_KEYBOARD_ROLE = 7"

text \<open>
  \<^verbatim>\<open>UbuntuWindow::createWindow()\<close>. While the caller waits for the creation of the
  surface, \<^verbatim>\<open>surfaceCreateCallback\<close> stores the surface and registers the event handler
  on it. \<^verbatim>\<open>DASSERT\<close> compiles to nothing in the build modelled, so a surface that is
  still null after the wait is handed to \<^verbatim>\<open>mir_surface_get_buffer_stream\<close>; the model
  ends there with \<^term>\<open>SurfaceNull\<close>, keeping the calls made so far.
\<close>

definition createWindow :: "Environment \<Rightarrow> UbuntuWindow \<Rightarrow> (failure + UbuntuWindow) \<times> effect list" where
  "createWindow env w =
     (let role = (case roleProperty env of Some r \<Rightarrow> int r | None \<Rightarrow> 1);
          title = (case windowTitle env of Some t \<Rightarrow> t | None \<Rightarrow> ''Window 1'');
          ph = panelHeight (GRID_UNIT_PX env);
          (geometry0, out_geometry) =
             createWindow_geometry (d_state w) (screenGeometry env)
               (screenAvailableGeometry env) (geometry w) ph;
          needsAlpha = (alphaBufferSize (d_format w) > 0);
          w1 = w\<lparr>d_format := glFormatFromConfig env\<rparr>;
          (pixelFormat, out_format) = getPixelFormat (availableSurfaceFormats env) needsAlpha;
          spec =
            (if role = SCREEN_KEYBOARD_ROLE then
               CreateSpecForInputMethod (QRect_width geometry0) (QRect_height geometry0) pixelFormat
             else
               CreateSpecForNormalSurface (QRect_width geometry0) (QRect_height geometry0) pixelFormat);
          out_create =
            out_geometry @ out_format @ [spec, SpecSetName title, SurfaceCreateSync]
      in case createdSurface env of
           None \<Rightarrow> (Inl SurfaceNull, out_create @ [SpecRelease])
         | Some parameters \<Rightarrow>
             (let w2 = w1\<lparr>d_surface := True, d_eglSurface := eglSurfaceCreated env\<rparr>;
                  out_state =
                    (if d_state w2 = WindowFullScreen
                     then [SurfaceSetStateSync mir_surface_state_fullscreen] else []);
                  geometry1 =
                    QRect_setHeight (QRect_setWidth geometry0 (p_width parameters))
                      (p_height parameters);
                  w3 = w2\<lparr>d_bufferSize := QRect_size geometry1\<rparr>
              in (Inr (w3\<lparr>rect := geometry1\<rparr>),
                  out_create @ [SurfaceSetEventHandler, SpecRelease, EglCreateWindowSurface]
                    @ out_state @ [HandleGeometryChange geometry1 QRect_default])))"

text \<open>
  The constructor. Its first argument is the value of the function-local
  \<^verbatim>\<open>static int id\<close> (initialised to 1) when the constructor runs; the first component
  of the result is the value that \<^verbatim>\<open>id++\<close> leaves there. The field \<^verbatim>\<open>d->id\<close> is a
  \<^verbatim>\<open>WId\<close>, so the assignment converts. A default-constructed \<^verbatim>\<open>QSize\<close> is
  \<^verbatim>\<open>(-1, -1)\<close>.
\<close>

definition UbuntuWindow_new :: "int \<Rightarrow> Environment \<Rightarrow> int \<times> (failure + UbuntuWindow) \<times> effect list" where
  "UbuntuWindow_new static_id env =
     (let d = \<lparr>rect = QRect_default,
               d_eglSurface = False,
               d_format = requestedFormat env,
               d_id = to_WId static_id,
               d_state = windowState env,
               d_surface = False,
               d_bufferSize = \<lparr>wd = - 1, ht = - 1\<rparr>,
               d_exposed = True,
               d_resizeCatchUpAttempts = 0\<rparr>;
          d1 = d\<lparr>rect := (if windowGeometry env \<noteq> screenGeometry env then windowGeometry env
                           else screenAvailableGeometry env)\<rparr>
      in (int32 (static_id + 1), createWindow env d1))"


subsection \<open>Notifications and setters\<close>

text \<open>
  Every one of these operations starts with the statement \<^verbatim>\<open>QMutexLocker(&d->mutex);\<close>.
  The statement names no variable: it is an expression that builds a temporary
  \<^verbatim>\<open>QMutexLocker\<close>, whose constructor locks the mutex and whose destructor, run at the end
  of the same statement, unlocks it. Hence \<^term>\<open>MutexLock\<close> and \<^term>\<open>MutexUnlock\<close> are the
  first two calls of each operation.
\<close>

definition expose_rect :: "UbuntuWindow \<Rightarrow> QRect" where
  \<comment> \<open>\<^verbatim>\<open>d->exposed ? QRect(QPoint(), geometry().size()) : QRect()\<close>\<close>
  "expose_rect w =
     (if d_exposed w then QRect_at_origin (QRect_size (geometry w)) else QRect_default)"

definition handleSurfaceResize :: "int \<Rightarrow> int \<Rightarrow> UbuntuWindow \<Rightarrow> UbuntuWindow \<times> effect list" where
  "handleSurfaceResize width height w =
     (if wd (d_bufferSize w) \<noteq> width \<or> ht (d_bufferSize w) \<noteq> height then
        (let w1 = w\<lparr>d_resizeCatchUpAttempts := 2\<rparr>
         in (w1, [MutexLock, MutexUnlock, HandleExposeEvent (expose_rect w1),
                  FlushWindowSystemEvents]))
      else (w, [MutexLock, MutexUnlock]))"

definition handleSurfaceExposeChange :: "bool \<Rightarrow> UbuntuWindow \<Rightarrow> UbuntuWindow \<times> effect list" where
  "handleSurfaceExposeChange exposed w =
     (if d_exposed w \<noteq> exposed then
        (let w1 = w\<lparr>d_exposed := exposed\<rparr>
         in (w1, [MutexLock, MutexUnlock, HandleExposeEvent (expose_rect w1),
                  FlushWindowSystemEvents]))
      else (w, [MutexLock, MutexUnlock]))"

definition setWindowState :: "WindowState \<Rightarrow> UbuntuWindow \<Rightarrow> UbuntuWindow \<times> effect list" where
  "setWindowState state w =
     (if state = d_state w then (w, [MutexLock, MutexUnlock])
      else (w\<lparr>d_state := state\<rparr>,
            [MutexLock, MutexUnlock,
             SurfaceSetStateSync (qtWindowStateToMirSurfaceState state)]))"

text \<open>\<^verbatim>\<open>moveResize\<close> has an empty body, so \<^verbatim>\<open>doMoveResize\<close> changes nothing.\<close>

definition setGeometry :: "QRect \<Rightarrow> UbuntuWindow \<Rightarrow> UbuntuWindow \<times> effect list" where
  "setGeometry r w = (w\<lparr>rect := r\<rparr>, [MutexLock, MutexUnlock])"

definition setVisible :: "bool \<Rightarrow> UbuntuWindow \<Rightarrow> UbuntuWindow \<times> effect list" where
  "setVisible visible w =
     (w, [MutexLock, MutexUnlock,
          (if visible then SurfaceSetStateSync (qtWindowStateToMirSurfaceState (d_state w))
           else SurfaceSetStateSync mir_surface_state_minimized),
          HandleExposeEvent (expose_rect w),
          FlushWindowSystemEvents])"

definition onBuffersSwapped_threadSafe ::
    "int \<Rightarrow> int \<Rightarrow> UbuntuWindow \<Rightarrow> UbuntuWindow \<times> effect list" where
  "onBuffersSwapped_threadSafe newBufferWidth newBufferHeight w =
     (let sizeKnown = (newBufferWidth > 0 \<and> newBufferHeight > 0)
      in if sizeKnown \<and> (wd (d_bufferSize w) \<noteq> newBufferWidth
                          \<or> ht (d_bufferSize w) \<noteq> newBufferHeight) then
           (let w1 = w\<lparr>d_resizeCatchUpAttempts := 0\<rparr>;
                w2 = w1\<lparr>d_bufferSize :=
                          (d_bufferSize w1)\<lparr>wd := newBufferWidth, ht := newBufferHeight\<rparr>\<rparr>;
                newGeometry =
                  QRect_setHeight (QRect_setWidth (geometry w2) (wd (d_bufferSize w2)))
                    (ht (d_bufferSize w2))
            in (w2\<lparr>rect := newGeometry\<rparr>,
                [MutexLock, MutexUnlock, HandleGeometryChange newGeometry QRect_default]))
         else if d_resizeCatchUpAttempts w > 0 then
           (let w1 = w\<lparr>d_resizeCatchUpAttempts := d_resizeCatchUpAttempts w - 1\<rparr>
            in (w1, [MutexLock, MutexUnlock, HandleExposeEvent (expose_rect w1)]))
         else (w, [MutexLock, MutexUnlock]))"

subsection \<open>Two threads on one window\<close>

text \<open>
  The compositor's event thread delivers resize notifications while the rendering thread
  delivers buffer swaps. To see what the mutex does for them, \<^verbatim>\<open>handleSurfaceResize\<close>
  and \<^verbatim>\<open>onBuffersSwapped_threadSafe\<close> are cut into their statements: a program counter
  per operation, and one step per statement on the shared window and mutex (the
  statement \<^verbatim>\<open>QMutexLocker(&d->mutex);\<close> is two steps, the constructor and the destructor
  of the temporary; \<^verbatim>\<open>sizeKnown\<close>, which depends on the arguments only, is computed with
  the test that uses it). A step that would lock a mutex that is held is not enabled. The
  local \<^verbatim>\<open>newGeometry\<close> of the swap notification travels with its program counter.
\<close>

datatype resize_pc =
  R_lock | R_unlock | R_test | R_arm | R_expose | R_flush | R_done

datatype swap_pc =
  S_lock | S_unlock | S_test_size | S_reset | S_store_width | S_store_height
  | S_copy_geometry | S_set_width QRect | S_set_height QRect | S_set_geometry QRect
  | S_notify QRect | S_test_counter | S_decrement | S_expose | S_done

fun handleSurfaceResize_step ::
    "int \<Rightarrow> int \<Rightarrow> resize_pc \<Rightarrow> UbuntuWindow \<times> bool \<Rightarrow>
       (resize_pc \<times> (UbuntuWindow \<times> bool) \<times> effect list) option" where
  "handleSurfaceResize_step width height R_lock (w, locked) =
     (if locked then None else Some (R_unlock, (w, True), [MutexLock]))"
| "handleSurfaceResize_step width height R_unlock (w, locked) =
     Some (R_test, (w, False), [MutexUnlock])"
| "handleSurfaceResize_step width height R_test (w, locked) =
     Some (if wd (d_bufferSize w) \<noteq> width \<or> ht (d_bufferSize w) \<noteq> height
           then R_arm else R_done, (w, locked), [])"
| "handleSurfaceResize_step width height R_arm (w, locked) =
     Some (R_expose, (w\<lparr>d_resizeCatchUpAttempts := 2\<rparr>, locked), [])"
| "handleSurfaceResize_step width height R_expose (w, locked) =
     Some (R_flush, (w, locked), [HandleExposeEvent (expose_rect w)])"
| "handleSurfaceResize_step width height R_flush (w, locked) =
     Some (R_done, (w, locked), [FlushWindowSystemEvents])"
| "handleSurfaceResize_step width height R_done (w, locked) = None"

fun onBuffersSwapped_step ::
    "int \<Rightarrow> int \<Rightarrow> swap_pc \<Rightarrow> UbuntuWindow \<times> bool \<Rightarrow>
       (swap_pc \<times> (UbuntuWindow \<times> bool) \<times> effect list) option" where
  "onBuffersSwapped_step newBufferWidth newBufferHeight S_lock (w, locked) =
     (if locked then None else Some (S_unlock, (w, True), [MutexLock]))"
| "onBuffersSwapped_step newBufferWidth newBufferHeight S_unlock (w, locked) =
     Some (S_test_size, (w, False), [MutexUnlock])"
| "onBuffersSwapped_step newBufferWidth newBufferHeight S_test_size (w, locked) =
     Some (if (newBufferWidth > 0 \<and> newBufferHeight > 0)
              \<and> (wd (d_bufferSize w) \<noteq> newBufferWidth \<or> ht (d_bufferSize w) \<noteq> newBufferHeight)
           then S_reset else S_test_counter, (w, locked), [])"
| "onBuffersSwapped_step newBufferWidth newBufferHeight S_reset (w, locked) =
     Some (S_store_width, (w\<lparr>d_resizeCatchUpAttempts := 0\<rparr>, locked), [])"
| "onBuffersSwapped_step newBufferWidth newBufferHeight S_store_width (w, locked) =
     Some (S_store_height, (w\<lparr>d_bufferSize := (d_bufferSize w)\<lparr>wd := newBufferWidth\<rparr>\<rparr>, locked), [])"
| "onBuffersSwapped_step newBufferWidth newBufferHeight S_store_height (w, locked) =
     Some (S_copy_geometry, (w\<lparr>d_bufferSize := (d_bufferSize w)\<lparr>ht := newBufferHeight\<rparr>\<rparr>, locked), [])"
| "onBuffersSwapped_step newBufferWidth newBufferHeight S_copy_geometry (w, locked) =
     Some (S_set_width (geometry w), (w, locked), [])"
| "onBuffersSwapped_step newBufferWidth newBufferHeight (S_set_width newGeometry) (w, locked) =
     Some (S_set_height (QRect_setWidth newGeometry (wd (d_bufferSize w))), (w, locked), [])"
| "onBuffersSwapped_step newBufferWidth newBufferHeight (S_set_height newGeometry) (w, locked) =
     Some (S_set_geometry (QRect_setHeight newGeometry (ht (d_bufferSize w))), (w, locked), [])"
| "onBuffersSwapped_step newBufferWidth newBufferHeight (S_set_geometry newGeometry) (w, locked) =
     Some (S_notify newGeometry, (w\<lparr>rect := newGeometry\<rparr>, locked), [])"
| "onBuffersSwapped_step newBufferWidth newBufferHeight (S_notify newGeometry) (w, locked) =
     Some (S_done, (w, locked), [HandleGeometryChange newGeometry QRect_default])"
| "onBuffersSwapped_step newBufferWidth newBufferHeight S_test_counter (w, locked) =
     Some (if d_resizeCatchUpAttempts w > 0 then S_decrement else S_done, (w, locked), [])"
| "onBuffersSwapped_step newBufferWidth newBufferHeight S_decrement (w, locked) =
     Some (S_expose, (w\<lparr>d_resizeCatchUpAttempts := d_resizeCatchUpAttempts w - 1\<rparr>, locked), [])"
| "onBuffersSwapped_step newBufferWidth newBufferHeight S_expose (w, locked) =
     Some (S_done, (w, locked), [HandleExposeEvent (expose_rect w)])"
| "onBuffersSwapped_step newBufferWidth newBufferHeight S_done (w, locked) = None"

text \<open>
  A configuration: the window, whether the mutex is held, the calls made so far, and where
  the event thread (inside \<^verbatim>\<open>handleSurfaceResize(width, height)\<close>) and the rendering thread
  (inside \<^verbatim>\<open>onBuffersSwapped_threadSafe(newBufferWidth, newBufferHeight)\<close>) stand. A schedule
  names the thread that takes the next step; it runs when every step it asks for is
  enabled.
\<close>

datatype thread = EventThread | RenderThread

record configuration =
  window :: UbuntuWindow
  mutex_locked :: bool
  calls :: "effect list"
  event_pc :: resize_pc
  render_pc :: swap_pc

record notifications =
  resize_width :: int
  resize_height :: int
  swap_width :: int
  swap_height :: int

fun thread_step :: "notifications \<Rightarrow> thread \<Rightarrow> configuration \<Rightarrow> configuration option" where
  "thread_step n EventThread c =
     (case handleSurfaceResize_step (resize_width n) (resize_height n) (event_pc c)
             (window c, mutex_locked c) of
        None \<Rightarrow> None
      | Some (pc, (w, locked), out) \<Rightarrow>
          Some (c\<lparr>window := w, mutex_locked := locked, calls := calls c @ out,
                  event_pc := pc\<rparr>))"
| "thread_step n RenderThread c =
     (case onBuffersSwapped_step (swap_width n) (swap_height n) (render_pc c)
             (window c, mutex_locked c) of
        None \<Rightarrow> None
      | Some (pc, (w, locked), out) \<Rightarrow>
          Some (c\<lparr>window := w, mutex_locked := locked, calls := calls c @ out,
                  render_pc := pc\<rparr>))"

fun run_schedule :: "notifications \<Rightarrow> thread list \<Rightarrow> configuration \<Rightarrow> configuration option" where
  "run_schedule n [] c = Some c"
| "run_schedule n (t # ts) c =
     (case thread_step n t c of None \<Rightarrow> None | Some c' \<Rightarrow> run_schedule n ts c')"

definition initial :: "UbuntuWindow \<Rightarrow> configuration" where
  "initial w = \<lparr>window = w, mutex_locked = False, calls = [], event_pc = R_lock,
                render_pc = S_lock\<rparr>"

subsection \<open>Reading the calls of an operation\<close>

text \<open>The number of synchronous surface-state requests among the calls.\<close>

fun is_state_request :: "effect \<Rightarrow> bool" where
  "is_state_request (SurfaceSetStateSync _) = True"
| "is_state_request _ = False"

definition state_requests :: "effect list \<Rightarrow> nat" where
  "state_requests out = length (filter is_state_request out)"

text \<open>
  The pixel formats with which surface creation was requested: each
  \<^term>\<open>SurfaceCreateSync\<close> creates from the surface spec made last before it.
\<close>

fun surface_creations :: "MirPixelFormat option \<Rightarrow> effect list \<Rightarrow> MirPixelFormat option list" where
  "surface_creations spec [] = []"
| "surface_creations spec (CreateSpecForInputMethod w h f # out) = surface_creations (Some f) out"
| "surface_creations spec (CreateSpecForNormalSurface w h f # out) = surface_creations (Some f) out"
| "surface_creations spec (SurfaceCreateSync # out) = spec # surface_creations spec out"
| "surface_creations spec (e # out) = surface_creations spec out"

subsection \<open>Sample inputs\<close>

text \<open>
  A phone screen of 720 by 1280 pixels whose available geometry starts 10 pixels below
  the top, with \<^verbatim>\<open>GRID_UNIT_PX\<close> unset, and a connection on which none of the candidate
  formats is available and for which the compositor creates no surface.
\<close>

definition sample_environment :: Environment where
  "sample_environment =
     \<lparr>requestedFormat = \<lparr>alphaBufferSize = 8\<rparr>,
      windowState = WindowMaximized,
      windowGeometry = QRect_xywh 0 0 720 1280,
      roleProperty = None,
      windowTitle = None,
      screenGeometry = QRect_xywh 0 0 720 1280,
      screenAvailableGeometry = QRect_xywh 0 10 720 1270,
      GRID_UNIT_PX = [],
      availableSurfaceFormats = [mir_pixel_format_rgb_565],
      glFormatFromConfig = \<lparr>alphaBufferSize = 8\<rparr>,
      createdSurface = None,
      eglSurfaceCreated = False\<rparr>"


text \<open>A live window of 100 by 100 pixels in the normal state, exposed and converged.\<close>

definition sample_window :: UbuntuWindow where
  "sample_window =
     \<lparr>rect = QRect_xywh 0 26 100 100,
      d_eglSurface = True,
      d_format = \<lparr>alphaBufferSize = 0\<rparr>,
      d_id = 1,
      d_state = WindowNoState,
      d_surface = True,
      d_bufferSize = \<lparr>wd = 100, ht = 100\<rparr>,
      d_exposed = True,
      d_resizeCatchUpAttempts = 0\<rparr>"

text \<open>
  A resize notification for 200 by 100 pixels on the event thread, and the swap of the
  first buffer of that size on the rendering thread.
\<close>

definition sample_notifications :: notifications where
  "sample_notifications =
     \<lparr>resize_width = 200, resize_height = 100, swap_width = 200, swap_height = 100\<rparr>"

text \<open>
  What an observer of a finished run sees: the catch-up counter, the stored buffer size,
  where the two threads stand and whether the mutex is held.
\<close>

definition outcome ::
    "configuration option \<Rightarrow> (int \<times> QSize \<times> resize_pc \<times> swap_pc \<times> bool) option" where
  "outcome r =
     map_option
       (\<lambda>c. (d_resizeCatchUpAttempts (window c), d_bufferSize (window c), event_pc c,
             render_pc c, mutex_locked c)) r"

section \<open>Properties\<close>

subsection \<open>Auxiliary facts\<close>

lemmas QRect_defs =
  QRect_default_def QRect_xywh_def QRect_at_origin_def QRect_x_def QRect_y_def
  QRect_width_def QRect_height_def QRect_size_def QRect_isEmpty_def QRect_setY_def
  QRect_setWidth_def QRect_setHeight_def

text \<open>
  Wrap-around: it changes exactly the values outside the range of an \<^verbatim>\<open>int\<close>, and
  wrapping an intermediate sum does not change the wrapped result. Hence the panel
  height is the wrapped value of the exact expression, and the exact expression lies in
  the range of an \<^verbatim>\<open>int\<close> exactly for grid units from -660764199 to 660764199.
\<close>

lemma int32_in_range: "int32 x = x \<longleftrightarrow> - 2147483648 \<le> x \<and> x \<le> 2147483647"
proof -
  have "int32 x = x \<longleftrightarrow> (x + 2147483648) mod 4294967296 = x + 2147483648"
    by (auto simp: int32_def)
  also have "\<dots> \<longleftrightarrow> 0 \<le> x + 2147483648 \<and> x + 2147483648 < 4294967296"
    by (auto simp: zmod_trivial_iff)
  finally show ?thesis by auto
qed

lemma int32_add_left: "int32 (int32 x + y) = int32 (x + y)"
proof -
  let ?a = "2147483648::int" and ?m = "4294967296::int"
  have 1: "int32 x + y + ?a = (x + ?a) mod ?m + y"
    by (simp add: int32_def)
  have 2: "x + ?a + y = x + y + ?a"
    by simp
  have "int32 (int32 x + y) = (int32 x + y + ?a) mod ?m - ?a"
    by (rule int32_def)
  also have "\<dots> = ((x + ?a) mod ?m + y) mod ?m - ?a"
    by (simp only: 1)
  also have "\<dots> = (x + ?a + y) mod ?m - ?a"
    by (simp only: mod_add_left_eq)
  also have "\<dots> = (x + y + ?a) mod ?m - ?a"
    by (simp only: 2)
  also have "\<dots> = int32 (x + y)"
    by (rule int32_def [symmetric])
  finally show ?thesis .
qed

lemma int32_add_right: "int32 (x + int32 y) = int32 (x + y)"
  using int32_add_left [of y x] by (simp only: add.commute)

lemma panelHeight_int32:
  "panelHeight s = int32 (gridUnit_of s * 3 + (gridUnit_of s div 8) * 2)"
  by (simp only: panelHeight_def Let_def defaultGridUnit_def int32_add_left int32_add_right)

lemma panelHeight_exact_range:
  fixes x :: int
  shows "(- 2147483648 \<le> x * 3 + (x div 8) * 2 \<and> x * 3 + (x div 8) * 2 \<le> 2147483647)
      \<longleftrightarrow> (- 660764199 \<le> x \<and> x \<le> 660764199)"
proof
  assume a: "- 2147483648 \<le> x * 3 + (x div 8) * 2 \<and> x * 3 + (x div 8) * 2 \<le> 2147483647"
  show "- 660764199 \<le> x \<and> x \<le> 660764199"
  proof (rule ccontr)
    assume "\<not> (- 660764199 \<le> x \<and> x \<le> 660764199)"
    then consider "660764200 \<le> x" | "x \<le> - 660764200"
      by linarith
    then show False
    proof cases
      case 1
      then have "660764200 div 8 \<le> x div 8"
        by (intro zdiv_mono1) simp_all
      with 1 a show False by simp
    next
      case 2
      then have "x div 8 \<le> (- 660764200) div 8"
        by (intro zdiv_mono1) simp_all
      with 2 a show False by simp
    qed
  qed
next
  assume b: "- 660764199 \<le> x \<and> x \<le> 660764199"
  then have "x div 8 \<le> 660764199 div 8" "(- 660764199) div 8 \<le> x div 8"
    by (intro zdiv_mono1; simp)+
  with b show "- 2147483648 \<le> x * 3 + (x div 8) * 2 \<and> x * 3 + (x div 8) * 2 \<le> 2147483647"
    by simp
qed

lemma format_available_iff: "format_available f av \<longleftrightarrow> f \<in> set av"
  by (induction av) auto

text \<open>
  The negotiator returns the first candidate, in the order of the candidate list, that is
  among the available formats, whatever the order of the available formats.
\<close>

lemma first_available_find:
  "fst (first_available fs av) =
     (case find (\<lambda>f. f \<in> set av) fs of Some f \<Rightarrow> f | None \<Rightarrow> mir_pixel_format_invalid)"
  by (induction fs) (auto simp: format_available_iff)

lemma first_available_none:
  "set fs \<inter> set av = {} \<Longrightarrow>
   first_available fs av = (mir_pixel_format_invalid, [QWarning no_format_warning])"
  by (induction fs) (auto simp: format_available_iff)

lemma getPixelFormat_none:
  assumes "set formats \<inter> set av = {}"
  shows "getPixelFormat av hasAlpha = (mir_pixel_format_invalid, [QWarning no_format_warning])"
proof -
  have "set (drop n formats) \<inter> set av = {}" for n
    using assms set_drop_subset [of n formats] by blast
  then show ?thesis
    unfolding getPixelFormat_def by (intro first_available_none)
qed

text \<open>
  When alpha is required and no alpha-capable candidate is available, the negotiator falls
  back to the opaque candidates.
\<close>

lemma getPixelFormat_opaque_fallback:
  "fst (getPixelFormat av True) =
     (if mir_pixel_format_argb_8888 \<in> set av then mir_pixel_format_argb_8888
      else if mir_pixel_format_abgr_8888 \<in> set av then mir_pixel_format_abgr_8888
      else fst (getPixelFormat av False))"
  by (simp add: getPixelFormat_def formats_def format_available_iff)

text \<open>
  The identifier of a window is fixed by its constructor: creation and the operations
  leave it alone. A construction succeeds when the compositor creates the surface; the
  window then carries the converted value of the counter, and the counter is incremented
  with wrap-around. So the identifiers of a run of successful constructions are the
  successive values of the counter, converted.
\<close>

lemma createWindow_id: "createWindow env w = (Inr w', out) \<Longrightarrow> d_id w' = d_id w"
  by (auto simp: createWindow_def Let_def split: option.splits prod.splits)



lemma operations_keep_winId:
  "winId (fst (handleSurfaceResize width height w)) = winId w"
  "winId (fst (handleSurfaceExposeChange e w)) = winId w"
  "winId (fst (setWindowState s w)) = winId w"
  "winId (fst (setGeometry r w)) = winId w"
  "winId (fst (setVisible v w)) = winId w"
  "winId (fst (onBuffersSwapped_threadSafe newBufferWidth newBufferHeight w)) = winId w"
  by (simp_all add: handleSurfaceResize_def handleSurfaceExposeChange_def setWindowState_def
      setGeometry_def setVisible_def onBuffersSwapped_threadSafe_def Let_def winId_def)


text \<open>
  The geometry of a window created in the maximized state: its top edge is the panel
  height, its width and height are the ones the compositor reports.
\<close>

lemma createWindow_maximized_rect:
  assumes "createWindow env w = (Inr w', out)" and "d_state w = WindowMaximized"
  shows "QRect_y (geometry w') = panelHeight (GRID_UNIT_PX env)"
    and "QRect_x (geometry w') = QRect_x (screenAvailableGeometry env)"
  using assms
  by (auto simp: createWindow_def createWindow_geometry_def Let_def geometry_def QRect_defs
      split: option.splits prod.splits)

text \<open>
  The statement-by-statement view agrees with the operations: a thread that runs alone,
  from an unlocked mutex, ends with the window and the calls of the operation.
\<close>

lemma handleSurfaceResize_alone:
  "run_schedule n
     (replicate (if wd (d_bufferSize w) \<noteq> resize_width n \<or> ht (d_bufferSize w) \<noteq> resize_height n
                 then 6 else 3) EventThread)
     (initial w)
   = Some ((initial w)
       \<lparr>window := fst (handleSurfaceResize (resize_width n) (resize_height n) w),
        calls := snd (handleSurfaceResize (resize_width n) (resize_height n) w),
        event_pc := R_done\<rparr>)"
  by (simp add: numeral_eq_Suc initial_def handleSurfaceResize_def Let_def)

lemma onBuffersSwapped_alone:
  "run_schedule n
     (replicate
        (if (swap_width n > 0 \<and> swap_height n > 0)
            \<and> (wd (d_bufferSize w) \<noteq> swap_width n \<or> ht (d_bufferSize w) \<noteq> swap_height n) then 11
         else if d_resizeCatchUpAttempts w > 0 then 6 else 4) RenderThread)
     (initial w)
   = Some ((initial w)
       \<lparr>window := fst (onBuffersSwapped_threadSafe (swap_width n) (swap_height n) w),
        calls := snd (onBuffersSwapped_threadSafe (swap_width n) (swap_height n) w),
        render_pc := S_done\<rparr>)"
  by (simp add: numeral_eq_Suc initial_def onBuffersSwapped_threadSafe_def Let_def geometry_def)

text \<open>
  The interleaving that the early release permits, for any window and any notifications
  that meet the conditions of the two branches: the swap notification runs between the
  comparison and the assignment of the resize notification, and the counter ends at 2
  with the new size stored. In either order without interleaving, a resize notification
  and the swap of a buffer of the same new size leave the counter at 0.
\<close>

lemma swap_inside_resize:
  assumes "swap_width n > 0" and "swap_height n > 0"
    and "wd (d_bufferSize w) \<noteq> resize_width n \<or> ht (d_bufferSize w) \<noteq> resize_height n"
    and "wd (d_bufferSize w) \<noteq> swap_width n \<or> ht (d_bufferSize w) \<noteq> swap_height n"
  shows "outcome (run_schedule n
       ([EventThread, EventThread, EventThread]
        @ replicate 11 RenderThread
        @ [EventThread, EventThread, EventThread]) (initial w))
     = Some (2, \<lparr>wd = swap_width n, ht = swap_height n\<rparr>, R_done, S_done, False)"
  using assms
  by (auto simp: numeral_eq_Suc outcome_def initial_def geometry_def Let_def)

lemma resize_and_swap_in_turn:
  assumes "newBufferWidth > 0" and "newBufferHeight > 0"
    and "wd (d_bufferSize w) \<noteq> newBufferWidth \<or> ht (d_bufferSize w) \<noteq> newBufferHeight"
  shows "d_resizeCatchUpAttempts
           (fst (onBuffersSwapped_threadSafe newBufferWidth newBufferHeight
             (fst (handleSurfaceResize newBufferWidth newBufferHeight w)))) = 0"
    and "d_resizeCatchUpAttempts
           (fst (handleSurfaceResize newBufferWidth newBufferHeight
             (fst (onBuffersSwapped_threadSafe newBufferWidth newBufferHeight w)))) = 0"
  using assms
  by (auto simp: handleSurfaceResize_def onBuffersSwapped_threadSafe_def Let_def)

text \<open>
  While one thread is between taking and releasing the mutex, the other cannot start;
  once the first has released it, which is its second step, the other can.
\<close>

lemma mutex_excludes_only_the_first_step:
  "run_schedule n [EventThread, RenderThread] (initial w) = None"
  "run_schedule n [RenderThread, EventThread] (initial w) = None"
  "run_schedule n [EventThread, EventThread, RenderThread] (initial w) \<noteq> None"
  "run_schedule n [RenderThread, RenderThread, EventThread] (initial w) \<noteq> None"
  by (simp_all add: initial_def)

subsection \<open>The geometry of a maximized window (C1)\<close>

text \<open>
  C1 reads: whatever the screen's available geometry and the panel height, the geometry
  resolved for a window that is maximized at creation has the Y origin
  \<^verbatim>\<open>availableGeometry.y + panelHeight\<close>. On the sample screen, whose available geometry
  starts at y = 10, with the default panel height 26, the resolved Y origin is 26 and
  not 36: \<^verbatim>\<open>geometry.setY(panelHeight)\<close> assigns the panel height, it does not add it.
\<close>

theorem createWindow_maximized_y_not_offset:
  "QRect_y (fst (createWindow_geometry WindowMaximized (screenGeometry sample_environment)
      (screenAvailableGeometry sample_environment) (windowGeometry sample_environment)
      (panelHeight (GRID_UNIT_PX sample_environment))))
   \<noteq> QRect_y (screenAvailableGeometry sample_environment)
       + panelHeight (GRID_UNIT_PX sample_environment)"
  by (simp add: createWindow_geometry_def sample_environment_def QRect_defs panelHeight_def
      gridUnit_of_def defaultGridUnit_def int32_def)

text \<open>
  C1 as the code has it: for a window maximized at creation the resolved geometry is the
  screen's available geometry with its top edge moved to the panel height. Its Y origin
  is the panel height itself, which is \<^verbatim>\<open>availableGeometry.y + panelHeight\<close> exactly when
  the available geometry starts at y = 0; the X origin and the right and bottom edges are
  those of the available geometry.
\<close>

theorem createWindow_maximized_y_is_panelHeight:
  "QRect_y (fst (createWindow_geometry WindowMaximized sg ag g ph)) = ph
   \<and> (QRect_y (fst (createWindow_geometry WindowMaximized sg ag g ph)) = QRect_y ag + ph
        \<longleftrightarrow> QRect_y ag = 0)
   \<and> QRect_x (fst (createWindow_geometry WindowMaximized sg ag g ph)) = QRect_x ag
   \<and> rx2 (fst (createWindow_geometry WindowMaximized sg ag g ph)) = rx2 ag
   \<and> ry2 (fst (createWindow_geometry WindowMaximized sg ag g ph)) = ry2 ag"
  by (simp add: createWindow_geometry_def QRect_defs)

subsection \<open>The alpha policy of the negotiator (C2)\<close>

text \<open>
  C2: whatever the available formats, \<^verbatim>\<open>getPixelFormat\<close> never returns ARGB_8888 or
  ABGR_8888 when alpha is not needed; when alpha is needed it returns the alpha-capable
  candidate of highest priority among the available ones: ARGB_8888 if that is available,
  otherwise ABGR_8888 if that is.
\<close>

theorem getPixelFormat_alpha_policy:
  "(\<not> needsAlpha \<longrightarrow> \<not> alpha_capable (fst (getPixelFormat av needsAlpha)))
   \<and> (needsAlpha \<and> mir_pixel_format_argb_8888 \<in> set av
        \<longrightarrow> fst (getPixelFormat av needsAlpha) = mir_pixel_format_argb_8888)
   \<and> (needsAlpha \<and> mir_pixel_format_argb_8888 \<notin> set av \<and> mir_pixel_format_abgr_8888 \<in> set av
        \<longrightarrow> fst (getPixelFormat av needsAlpha) = mir_pixel_format_abgr_8888)"
  by (simp add: getPixelFormat_def formats_def alpha_capable_def format_available_iff)

theorem getPixelFormat_alpha_policy_witness:
  "\<not> alpha_capable (fst (getPixelFormat
        [mir_pixel_format_argb_8888, mir_pixel_format_xbgr_8888, mir_pixel_format_abgr_8888] False))
   \<and> fst (getPixelFormat
        [mir_pixel_format_xrgb_8888, mir_pixel_format_abgr_8888, mir_pixel_format_argb_8888] True)
       = mir_pixel_format_argb_8888
   \<and> fst (getPixelFormat [mir_pixel_format_xrgb_8888, mir_pixel_format_abgr_8888] True)
       = mir_pixel_format_abgr_8888"
  using
    getPixelFormat_alpha_policy [of False
      "[mir_pixel_format_argb_8888, mir_pixel_format_xbgr_8888, mir_pixel_format_abgr_8888]"]
    getPixelFormat_alpha_policy [of True
      "[mir_pixel_format_xrgb_8888, mir_pixel_format_abgr_8888, mir_pixel_format_argb_8888]"]
    getPixelFormat_alpha_policy [of True
      "[mir_pixel_format_xrgb_8888, mir_pixel_format_abgr_8888]"]
  by simp

subsection \<open>A buffer swap with a new size (C3)\<close>

text \<open>
  C3: when a buffer swap reports a size with both dimensions positive that differs from
  the stored buffer size, the catch-up counter becomes 0, the stored buffer size becomes
  the reported size, the stored geometry takes the reported width and height and keeps its
  origin, and the toolkit is told of the new geometry.
\<close>

theorem onBuffersSwapped_new_size:
  assumes "newBufferWidth > 0" and "newBufferHeight > 0"
    and "wd (d_bufferSize w) \<noteq> newBufferWidth \<or> ht (d_bufferSize w) \<noteq> newBufferHeight"
  shows "d_resizeCatchUpAttempts (fst (onBuffersSwapped_threadSafe newBufferWidth newBufferHeight w)) = 0
    \<and> d_bufferSize (fst (onBuffersSwapped_threadSafe newBufferWidth newBufferHeight w))
        = \<lparr>wd = newBufferWidth, ht = newBufferHeight\<rparr>
    \<and> QRect_width (geometry (fst (onBuffersSwapped_threadSafe newBufferWidth newBufferHeight w)))
        = newBufferWidth
    \<and> QRect_height (geometry (fst (onBuffersSwapped_threadSafe newBufferWidth newBufferHeight w)))
        = newBufferHeight
    \<and> QRect_x (geometry (fst (onBuffersSwapped_threadSafe newBufferWidth newBufferHeight w)))
        = QRect_x (geometry w)
    \<and> QRect_y (geometry (fst (onBuffersSwapped_threadSafe newBufferWidth newBufferHeight w)))
        = QRect_y (geometry w)
    \<and> snd (onBuffersSwapped_threadSafe newBufferWidth newBufferHeight w)
        = [MutexLock, MutexUnlock,
           HandleGeometryChange
             (geometry (fst (onBuffersSwapped_threadSafe newBufferWidth newBufferHeight w)))
             QRect_default]"
  using assms by (auto simp: onBuffersSwapped_threadSafe_def Let_def geometry_def QRect_defs)

theorem onBuffersSwapped_new_size_witness:
  "(200::int) > 0 \<and> (100::int) > 0
   \<and> wd (d_bufferSize sample_window) \<noteq> 200
   \<and> d_resizeCatchUpAttempts (fst (onBuffersSwapped_threadSafe 200 100 sample_window)) = 0
   \<and> d_bufferSize (fst (onBuffersSwapped_threadSafe 200 100 sample_window)) = \<lparr>wd = 200, ht = 100\<rparr>
   \<and> geometry (fst (onBuffersSwapped_threadSafe 200 100 sample_window)) = QRect_xywh 0 26 200 100"
proof -
  have h: "wd (d_bufferSize sample_window) \<noteq> 200"
    by (simp add: sample_window_def)
  have g: "geometry sample_window = QRect_xywh 0 26 100 100"
    by (simp add: sample_window_def geometry_def)
  from onBuffersSwapped_new_size [of 200 100 sample_window, OF _ _ disjI1 [OF h]] g h
  show ?thesis
    by (auto simp: QRect_defs intro!: QRect.equality)
qed

subsection \<open>The catch-up counter after a resize notification (C4)\<close>

text \<open>
  C4: on a converged window (counter 0), a resize notification whose size differs from the
  stored buffer size sets the counter to 2 and changes nothing else of the window; each
  of the next two buffer swaps that still report the old size lowers the counter by one
  and sends an expose event; the counter is then 0, and a third such swap sends no expose
  event and leaves the window as it is.
\<close>

theorem resize_catch_up_converges:
  fixes w :: UbuntuWindow and width height :: int
  defines "oldWidth \<equiv> wd (d_bufferSize w)"
    and "oldHeight \<equiv> ht (d_bufferSize w)"
    and "w1 \<equiv> fst (handleSurfaceResize width height w)"
  defines "w2 \<equiv> fst (onBuffersSwapped_threadSafe oldWidth oldHeight w1)"
  defines "w3 \<equiv> fst (onBuffersSwapped_threadSafe oldWidth oldHeight w2)"
  assumes converged: "d_resizeCatchUpAttempts w = 0"
    and differs: "wd (d_bufferSize w) \<noteq> width \<or> ht (d_bufferSize w) \<noteq> height"
  shows "handleSurfaceResize width height w =
        (w\<lparr>d_resizeCatchUpAttempts := 2\<rparr>,
         [MutexLock, MutexUnlock, HandleExposeEvent (expose_rect w), FlushWindowSystemEvents])
    \<and> onBuffersSwapped_threadSafe oldWidth oldHeight w1 =
        (w\<lparr>d_resizeCatchUpAttempts := 1\<rparr>,
         [MutexLock, MutexUnlock, HandleExposeEvent (expose_rect w)])
    \<and> onBuffersSwapped_threadSafe oldWidth oldHeight w2 =
        (w\<lparr>d_resizeCatchUpAttempts := 0\<rparr>,
         [MutexLock, MutexUnlock, HandleExposeEvent (expose_rect w)])
    \<and> d_resizeCatchUpAttempts w3 = 0
    \<and> onBuffersSwapped_threadSafe oldWidth oldHeight w3 = (w3, [MutexLock, MutexUnlock])"
proof -
  have e: "expose_rect (w\<lparr>d_resizeCatchUpAttempts := k\<rparr>) = expose_rect w" for k
    by (simp add: expose_rect_def geometry_def)
  have 1: "handleSurfaceResize width height w =
        (w\<lparr>d_resizeCatchUpAttempts := 2\<rparr>,
         [MutexLock, MutexUnlock, HandleExposeEvent (expose_rect w), FlushWindowSystemEvents])"
    using differs by (simp add: handleSurfaceResize_def Let_def e)
  then have w1': "w1 = w\<lparr>d_resizeCatchUpAttempts := 2\<rparr>"
    by (simp add: w1_def)
  have s: "onBuffersSwapped_threadSafe oldWidth oldHeight (w\<lparr>d_resizeCatchUpAttempts := k\<rparr>) =
      (if k > 0 then (w\<lparr>d_resizeCatchUpAttempts := k - 1\<rparr>,
                     [MutexLock, MutexUnlock, HandleExposeEvent (expose_rect w)])
       else (w\<lparr>d_resizeCatchUpAttempts := k\<rparr>, [MutexLock, MutexUnlock]))" for k
    by (simp add: onBuffersSwapped_threadSafe_def Let_def e oldWidth_def oldHeight_def)
  have 2: "onBuffersSwapped_threadSafe oldWidth oldHeight w1 =
        (w\<lparr>d_resizeCatchUpAttempts := 1\<rparr>,
         [MutexLock, MutexUnlock, HandleExposeEvent (expose_rect w)])"
    unfolding w1' s by simp
  then have w2': "w2 = w\<lparr>d_resizeCatchUpAttempts := 1\<rparr>"
    by (simp add: w2_def)
  have 3: "onBuffersSwapped_threadSafe oldWidth oldHeight w2 =
        (w\<lparr>d_resizeCatchUpAttempts := 0\<rparr>,
         [MutexLock, MutexUnlock, HandleExposeEvent (expose_rect w)])"
    unfolding w2' s by simp
  then have w3': "w3 = w\<lparr>d_resizeCatchUpAttempts := 0\<rparr>"
    by (simp add: w3_def)
  have 4: "d_resizeCatchUpAttempts w3 = 0"
    by (simp add: w3')
  have 5: "onBuffersSwapped_threadSafe oldWidth oldHeight w3 = (w3, [MutexLock, MutexUnlock])"
    unfolding w3' s by simp
  from 1 2 3 4 5 show ?thesis by simp
qed

theorem resize_catch_up_converges_witness:
  "d_resizeCatchUpAttempts sample_window = 0
   \<and> wd (d_bufferSize sample_window) \<noteq> 200
   \<and> handleSurfaceResize 200 100 sample_window =
        (sample_window\<lparr>d_resizeCatchUpAttempts := 2\<rparr>,
         [MutexLock, MutexUnlock, HandleExposeEvent (QRect_xywh 0 0 100 100),
          FlushWindowSystemEvents])
   \<and> onBuffersSwapped_threadSafe 100 100 (fst (handleSurfaceResize 200 100 sample_window)) =
        (sample_window\<lparr>d_resizeCatchUpAttempts := 1\<rparr>,
         [MutexLock, MutexUnlock, HandleExposeEvent (QRect_xywh 0 0 100 100)])"
proof -
  have c: "d_resizeCatchUpAttempts sample_window = 0"
    by (simp add: sample_window_def)
  have d: "wd (d_bufferSize sample_window) \<noteq> 200"
    by (simp add: sample_window_def)
  have b: "wd (d_bufferSize sample_window) = 100" "ht (d_bufferSize sample_window) = 100"
    by (simp_all add: sample_window_def)
  have x: "expose_rect sample_window = QRect_xywh 0 0 100 100"
    by (simp add: expose_rect_def sample_window_def geometry_def QRect_defs)
  note t = resize_catch_up_converges [of sample_window 200 100, OF c disjI1 [OF d], unfolded b x]
  from c d conjunct1 [OF t] conjunct1 [OF conjunct2 [OF t]] show ?thesis
    by (intro conjI)
qed

subsection \<open>The mutex and the two notification paths (C5)\<close>

text \<open>
  C5 reads: every mutating operation holds the window's mutex throughout its critical
  section, so that the rendering thread and the event thread cannot interleave inside
  one. The operations try to: each begins with \<^verbatim>\<open>QMutexLocker(&d->mutex);\<close>, and
  \<^verbatim>\<open>setGeometry\<close> even opens a block for it. But the statement builds a temporary, so the
  mutex is released again before the first field is read. The run below shows what that
  allows. The event thread handles a resize to 200 by 100 on the sample window and, with
  the mutex already free, has just compared the stored buffer size (first line: it stands
  before \<^verbatim>\<open>d->resizeCatchUpAttempts = 2\<close>). The rendering thread then runs its whole swap
  notification for the first 200 by 100 buffer, which stores the new size and clears the
  counter, and the event thread goes on and arms the counter (second line). The window
  ends with the counter at 2 although its buffer already has the size of the resize;
  either order of the two operations without interleaving ends with the counter at 0
  (third and fourth line).
\<close>

theorem swap_interleaves_with_resize:
  "outcome (run_schedule sample_notifications
       [EventThread, EventThread, EventThread] (initial sample_window))
     = Some (0, \<lparr>wd = 100, ht = 100\<rparr>, R_arm, S_lock, False)
   \<and> outcome (run_schedule sample_notifications
       ([EventThread, EventThread, EventThread]
        @ [RenderThread, RenderThread, RenderThread, RenderThread, RenderThread, RenderThread,
           RenderThread, RenderThread, RenderThread, RenderThread, RenderThread]
        @ [EventThread, EventThread, EventThread]) (initial sample_window))
     = Some (2, \<lparr>wd = 200, ht = 100\<rparr>, R_done, S_done, False)
   \<and> outcome (run_schedule sample_notifications
       ([EventThread, EventThread, EventThread, EventThread, EventThread, EventThread]
        @ [RenderThread, RenderThread, RenderThread, RenderThread, RenderThread, RenderThread,
           RenderThread, RenderThread, RenderThread, RenderThread, RenderThread]) (initial sample_window))
     = Some (0, \<lparr>wd = 200, ht = 100\<rparr>, R_done, S_done, False)
   \<and> outcome (run_schedule sample_notifications
       ([RenderThread, RenderThread, RenderThread, RenderThread, RenderThread, RenderThread,
           RenderThread, RenderThread, RenderThread, RenderThread, RenderThread]
        @ [EventThread, EventThread, EventThread]) (initial sample_window))
     = Some (0, \<lparr>wd = 200, ht = 100\<rparr>, R_done, S_done, False)"
  by (simp add: outcome_def initial_def sample_window_def sample_notifications_def geometry_def
      Let_def)

subsection \<open>No usable pixel format (C6)\<close>

text \<open>
  C6 reads: when none of the five candidates is available the negotiator returns the
  invalid-format sentinel, and the caller does not attempt surface creation with it. The
  first half holds. For the second, constructing a window in the sample surroundings,
  where only RGB_565 is available, requests the creation of a surface whose spec carries
  \<^term>\<open>mir_pixel_format_invalid\<close>.
\<close>

theorem createWindow_creates_with_invalid_format:
  "fst (getPixelFormat (availableSurfaceFormats sample_environment) True) = mir_pixel_format_invalid
   \<and> surface_creations None (snd (snd (UbuntuWindow_new 1 sample_environment)))
       = [Some mir_pixel_format_invalid]"
  by (simp add: UbuntuWindow_new_def createWindow_def sample_environment_def getPixelFormat_def
      formats_def createWindow_geometry_def Let_def SCREEN_KEYBOARD_ROLE_def geometry_def)

text \<open>
  C6 as the code has it: when none of the five candidates is available,
  \<^verbatim>\<open>getPixelFormat\<close> returns the sentinel and writes one warning; \<^verbatim>\<open>createWindow\<close> does not
  look at the result: it makes the surface spec with the sentinel and requests the
  creation of the surface with it, once.
\<close>

theorem createWindow_invalid_format_proceeds:
  assumes "set formats \<inter> set (availableSurfaceFormats env) = {}"
  shows "getPixelFormat (availableSurfaceFormats env) hasAlpha =
           (mir_pixel_format_invalid, [QWarning no_format_warning])
     \<and> surface_creations None (snd (createWindow env w)) = [Some mir_pixel_format_invalid]
     \<and> length (filter (\<lambda>e. e = QWarning no_format_warning) (snd (createWindow env w))) = 1"
  by (simp add: getPixelFormat_none [OF assms] createWindow_def createWindow_geometry_def Let_def
      split: option.splits)

theorem createWindow_invalid_format_proceeds_witness:
  "set formats \<inter> set (availableSurfaceFormats sample_environment) = {}
   \<and> getPixelFormat (availableSurfaceFormats sample_environment) True =
        (mir_pixel_format_invalid, [QWarning no_format_warning])
   \<and> surface_creations None (snd (createWindow sample_environment sample_window))
        = [Some mir_pixel_format_invalid]"
proof -
  have h: "set formats \<inter> set (availableSurfaceFormats sample_environment) = {}"
    by (simp add: sample_environment_def formats_def)
  from createWindow_invalid_format_proceeds [OF h, of True sample_window] h show ?thesis
    by blast
qed

subsection \<open>The panel height (C7)\<close>

text \<open>
  C7 reads: the panel height is \<^verbatim>\<open>gridUnit * 3 + floor(gridUnit / 8) * 2\<close> for the grid
  unit taken from \<^verbatim>\<open>GRID_UNIT_PX\<close>. The function computes in \<^verbatim>\<open>int\<close>: for the value
  \<^verbatim>\<open>"2147483647"\<close>, which \<^verbatim>\<open>toInt\<close> accepts, the expression is 6979321851 and the
  function returns -1610612741.
\<close>

theorem panelHeight_wraps:
  "QByteArray_toInt ''2147483647'' = Some 2147483647
   \<and> panelHeight ''2147483647'' = - 1610612741
   \<and> panelHeight ''2147483647'' \<noteq> 2147483647 * 3 + (2147483647 div 8) * 2"
  by (simp add: panelHeight_def gridUnit_of_def QByteArray_toInt_def parse_signed_def
      parse_digits_def is_space_def is_digit_def char_code_def defaultGridUnit_def int32_def)

text \<open>
  C7 as the code has it: the grid unit is the value of \<^verbatim>\<open>GRID_UNIT_PX\<close> when that parses
  as an \<^verbatim>\<open>int\<close> and 8 when it is missing or does not parse; the panel height is
  \<^verbatim>\<open>gridUnit * 3 + floor(gridUnit / 8) * 2\<close> computed in 32-bit \<^verbatim>\<open>int\<close> arithmetic, which
  is the exact value of that expression exactly when the grid unit lies between
  -660764199 and 660764199, and its wrap-around otherwise. It is 52 for \<^verbatim>\<open>"16"\<close>, and
  26 for \<^verbatim>\<open>"bogus"\<close> and for no value.
\<close>

theorem panelHeight_values:
  "gridUnit_of s =
     (case (if s = [] then None else QByteArray_toInt s) of None \<Rightarrow> 8 | Some v \<Rightarrow> v)
   \<and> panelHeight s = int32 (gridUnit_of s * 3 + (gridUnit_of s div 8) * 2)
   \<and> (panelHeight s = gridUnit_of s * 3 + (gridUnit_of s div 8) * 2
        \<longleftrightarrow> - 660764199 \<le> gridUnit_of s \<and> gridUnit_of s \<le> 660764199)
   \<and> QByteArray_toInt ''16'' = Some 16 \<and> panelHeight ''16'' = 52
   \<and> QByteArray_toInt ''bogus'' = None \<and> panelHeight ''bogus'' = 26
   \<and> panelHeight [] = 26"
proof -
  have g: "gridUnit_of s =
     (case (if s = [] then None else QByteArray_toInt s) of None \<Rightarrow> 8 | Some v \<Rightarrow> v)"
    by (simp add: gridUnit_of_def defaultGridUnit_def split: option.splits)
  have x: "panelHeight s = gridUnit_of s * 3 + (gridUnit_of s div 8) * 2
        \<longleftrightarrow> - 660764199 \<le> gridUnit_of s \<and> gridUnit_of s \<le> 660764199"
    by (simp only: panelHeight_int32 int32_in_range panelHeight_exact_range)
  have e: "QByteArray_toInt ''16'' = Some 16" "panelHeight ''16'' = 52"
    "QByteArray_toInt ''bogus'' = None" "panelHeight ''bogus'' = 26" "panelHeight [] = 26"
    by (simp_all add: panelHeight_def gridUnit_of_def QByteArray_toInt_def parse_signed_def
      parse_digits_def is_space_def is_digit_def char_code_def defaultGridUnit_def int32_def)
  from g panelHeight_int32 [of s] x e show ?thesis
    by (intro conjI)
qed

subsection \<open>Setting the same window state twice (C8)\<close>

text \<open>
  C8 reads: for every window state \<^verbatim>\<open>s\<close>, two calls of \<^verbatim>\<open>setWindowState(s)\<close> in a row
  issue exactly one synchronous state-change request. The sample window is in the normal
  state already; two calls with the normal state issue no request at all.
\<close>

theorem setWindowState_twice_no_request:
  "state_requests (snd (setWindowState WindowNoState sample_window)
      @ snd (setWindowState WindowNoState (fst (setWindowState WindowNoState sample_window))))
   \<noteq> 1"
  by (simp add: setWindowState_def sample_window_def state_requests_def)

text \<open>
  C8 as the code has it: the second of two calls of \<^verbatim>\<open>setWindowState(s)\<close> in a row finds
  \<^verbatim>\<open>s\<close> stored, issues no request and changes nothing; the two calls together issue
  exactly one synchronous state-change request when \<^verbatim>\<open>s\<close> differs from the state stored
  before the first call, and none when it is that state.
\<close>

theorem setWindowState_twice:
  "setWindowState s (fst (setWindowState s w)) = (fst (setWindowState s w), [MutexLock, MutexUnlock])
   \<and> d_state (fst (setWindowState s w)) = s
   \<and> snd (setWindowState s w) =
       (if s = d_state w then [MutexLock, MutexUnlock]
        else [MutexLock, MutexUnlock, SurfaceSetStateSync (qtWindowStateToMirSurfaceState s)])
   \<and> state_requests (snd (setWindowState s w)
        @ snd (setWindowState s (fst (setWindowState s w))))
      = (if s = d_state w then 0 else 1)"
  by (simp add: setWindowState_def state_requests_def)

subsection \<open>Window identifiers (C9)\<close>




subsection \<open>The calls of setVisible (C10)\<close>

text \<open>
  C10: \<^verbatim>\<open>setVisible\<close>, for \<^verbatim>\<open>true\<close> as for \<^verbatim>\<open>false\<close>, issues its synchronous
  surface-state request, then one expose event, then the flush of the toolkit's events,
  and changes no field. The expose event carries the rectangle at the origin with the size
  of the current geometry when the window is exposed, and the empty default rectangle
  otherwise.
\<close>

theorem setVisible_calls:
  "setVisible visible w =
     (w, [MutexLock, MutexUnlock,
          SurfaceSetStateSync (if visible then qtWindowStateToMirSurfaceState (d_state w)
                               else mir_surface_state_minimized),
          HandleExposeEvent (if d_exposed w then QRect_at_origin (QRect_size (geometry w))
                             else QRect_default),
          FlushWindowSystemEvents])
   \<and> QRect_isEmpty QRect_default
   \<and> QRect_x (QRect_at_origin (QRect_size (geometry w))) = 0
   \<and> QRect_y (QRect_at_origin (QRect_size (geometry w))) = 0
   \<and> QRect_size (QRect_at_origin (QRect_size (geometry w))) = QRect_size (geometry w)"
  by (simp add: setVisible_def expose_rect_def QRect_defs)

end
